theory Spec2Isabelle
  imports Main "HOL-Library.AList" "HOL-Library.Sublist"
begin

section \<open>JavaScript values used by both scripts\<close>

text \<open>
  The two scripts of the repository are embedded: the service worker
  (\<^verbatim>\<open>pwa/service-worker.js\<close>) and the Gateway/Vault part of the dashboard
  controller (\<^verbatim>\<open>dashboard/app.js\<close>). Strings are byte lists; a character outside
  ASCII is written as its UTF-8 bytes. A promise is modelled by the way it settles.
\<close>

datatype js_error = TypeError | AbortError | SyntaxError

fun error_name :: "js_error \<Rightarrow> string" where
  "error_name TypeError = ''TypeError''"
| "error_name AbortError = ''AbortError''"
| "error_name SyntaxError = ''SyntaxError''"

datatype 'a settled = Fulfilled 'a | Rejected js_error

text \<open>A string literal in double quotes, as it stands inside a JSON text.\<close>

definition quoted :: "string \<Rightarrow> string" where
  "quoted s = CHR 0x22 # s @ [CHR 0x22]"

text \<open>\<^verbatim>\<open>String.prototype.includes\<close>: the argument occurs as a contiguous run.\<close>

fun includes_str :: "string \<Rightarrow> string \<Rightarrow> bool" where
  "includes_str [] sub = (sub = [])"
| "includes_str (c # cs) sub = (prefix sub (c # cs) \<or> includes_str cs sub)"

record url =
  url_scheme :: string
  hostname :: string
  pathname :: string
  url_search :: string

text \<open>
  A request as the worker sees it. \<^verbatim>\<open>request.url\<close> is an absolute URL that the
  browser has already serialised, so \<^verbatim>\<open>new URL(request.url)\<close> cannot throw there
  and the request carries the parsed URL.
\<close>

record request =
  req_method :: string
  req_url :: url

record response =
  resp_status :: nat
  resp_headers :: "(string \<times> string) list"
  resp_body :: string

text \<open>\<^verbatim>\<open>response.ok\<close>: the status is in the range 200 to 299.\<close>

definition ok :: "response \<Rightarrow> bool" where
  "ok r = (200 \<le> resp_status r \<and> resp_status r \<le> 299)"

text \<open>
  The values that meet in \<^verbatim>\<open>cached || fetchPromise || new Response(...)\<close>: a missing
  cache entry is \<^verbatim>\<open>undefined\<close>, the handler of \<^verbatim>\<open>.catch\<close> returns \<^verbatim>\<open>null\<close>,
  and a promise is an object whatever it settles to.
\<close>

datatype js_value = Undefined | Null | Resp response | Promise js_value

fun truthy :: "js_value \<Rightarrow> bool" where
  "truthy Undefined = False"
| "truthy Null = False"
| "truthy (Resp r) = True"
| "truthy (Promise v) = True"

definition js_or :: "js_value \<Rightarrow> js_value \<Rightarrow> js_value" where
  "js_or a b = (if truthy a then a else b)"

text \<open>What the promise of an async function settles to when the function returns \<open>v\<close>.\<close>

fun resolve :: "js_value \<Rightarrow> js_value" where
  "resolve (Promise v) = resolve v"
| "resolve v = v"

fun of_option :: "response option \<Rightarrow> js_value" where
  "of_option None = Undefined"
| "of_option (Some r) = Resp r"

section \<open>The service worker\<close>

definition CACHE_NAME :: string where
  "CACHE_NAME = ''iacp-v1''"

definition API_CACHE :: string where
  "API_CACHE = ''iacp-api-v1''"

text \<open>
  A cache maps requests to responses; the cache storage lists the named caches in the
  order of their creation, which is the order of \<^verbatim>\<open>caches.keys()\<close>.
\<close>

type_synonym cache = "(request \<times> response) list"

type_synonym cache_storage = "(string \<times> cache) list"

definition caches_keys :: "cache_storage \<Rightarrow> string list" where
  "caches_keys cs = map fst cs"

definition caches_delete :: "cache_storage \<Rightarrow> string \<Rightarrow> cache_storage" where
  "caches_delete cs k = AList.delete k cs"

text \<open>\<^verbatim>\<open>caches.open(name)\<close> creates the cache when there is none of that name.\<close>

definition caches_open :: "cache_storage \<Rightarrow> string \<Rightarrow> cache_storage" where
  "caches_open cs name = (case map_of cs name of None \<Rightarrow> cs @ [(name, [])] | Some c \<Rightarrow> cs)"

definition cache_of :: "cache_storage \<Rightarrow> string \<Rightarrow> cache" where
  "cache_of cs name = (case map_of cs name of None \<Rightarrow> [] | Some c \<Rightarrow> c)"

definition cache_match :: "cache \<Rightarrow> request \<Rightarrow> response option" where
  "cache_match c r = map_of c r"

text \<open>\<^verbatim>\<open>cache.put(request, response)\<close> on the cache called \<open>name\<close>.\<close>

definition cache_put :: "cache_storage \<Rightarrow> string \<Rightarrow> request \<Rightarrow> response \<Rightarrow> cache_storage" where
  "cache_put cs name r v = AList.update name (AList.update r v (cache_of cs name)) cs"

text \<open>\<^verbatim>\<open>caches.match(request)\<close> looks through every cache, oldest first.\<close>

fun caches_match :: "cache_storage \<Rightarrow> request \<Rightarrow> response option" where
  "caches_match [] r = None"
| "caches_match ((n, c) # cs) r =
     (case cache_match c r of Some v \<Rightarrow> Some v | None \<Rightarrow> caches_match cs r)"

text \<open>
  \<^verbatim>\<open>new Response(body, init)\<close> for a string body: status 200 unless given, and a
  text content type unless the headers name one.
\<close>

definition new_Response :: "string \<Rightarrow> nat option \<Rightarrow> (string \<times> string) list \<Rightarrow> response" where
  "new_Response b st hs =
     \<lparr> resp_status = (case st of None \<Rightarrow> 200 | Some s \<Rightarrow> s),
       resp_headers = (if hs = [] then [(''Content-Type'', ''text/plain;charset=UTF-8'')] else hs),
       resp_body = b \<rparr>"

definition json_headers :: "(string \<times> string) list" where
  "json_headers = [(''Content-Type'', ''application/json'')]"

definition offline_json :: response where
  "offline_json =
     new_Response (''{'' @ quoted ''error'' @ '':'' @ quoted ''offline'' @ ''}'') None json_headers"

definition empty_json :: response where
  "empty_json = new_Response ''{}'' None json_headers"

definition offline_503 :: response where
  "offline_503 = new_Response ''Offline'' (Some 503) []"

subsection \<open>Activation\<close>

text \<open>
  \<^verbatim>\<open>caches.keys().then(keys => Promise.all(keys.filter(k => k !== CACHE_NAME && k !==
  API_CACHE).map(k => caches.delete(k)))).then(() => self.clients.claim())\<close>
\<close>

record worker =
  caches :: cache_storage
  clients_claimed :: bool

definition activate :: "worker \<Rightarrow> worker" where
  "activate w =
     \<lparr> caches = fold (\<lambda>k cs. caches_delete cs k)
         (filter (\<lambda>k. k \<noteq> CACHE_NAME \<and> k \<noteq> API_CACHE) (caches_keys (caches w))) (caches w),
       clients_claimed = True \<rparr>"

subsection \<open>The two cache policies\<close>

text \<open>
  The network is a parameter: how \<^verbatim>\<open>fetch(request)\<close> settles. Both functions return
  the value their promise settles to and the cache storage once the writes they start
  have finished.
\<close>

definition cacheFirst ::
  "(request \<Rightarrow> response settled) \<Rightarrow> cache_storage \<Rightarrow> request \<Rightarrow> string
    \<Rightarrow> js_value \<times> cache_storage" where
  "cacheFirst net cs request cacheName =
     (case caches_match cs request of
        Some cached \<Rightarrow> (Resp cached, cs)
      | None \<Rightarrow>
          (case net request of
             Fulfilled response \<Rightarrow>
               (Resp response,
                if ok response then cache_put (caches_open cs cacheName) cacheName request response
                else cs)
           | Rejected e \<Rightarrow> (Resp offline_503, cs)))"

definition staleWhileRevalidate ::
  "(request \<Rightarrow> response settled) \<Rightarrow> cache_storage \<Rightarrow> request \<Rightarrow> string
    \<Rightarrow> js_value \<times> cache_storage" where
  "staleWhileRevalidate net cs request cacheName =
     (let cs1 = caches_open cs cacheName;
          cached = of_option (cache_match (cache_of cs1 cacheName) request);
          fetched = (case net request of Fulfilled response \<Rightarrow> Resp response | Rejected e \<Rightarrow> Null);
          cs2 = (case net request of
                   Fulfilled response \<Rightarrow>
                     if ok response then cache_put cs1 cacheName request response else cs1
                 | Rejected e \<Rightarrow> cs1);
          fetchPromise = Promise fetched
      in (resolve (js_or cached (js_or fetchPromise (Resp empty_json))), cs2))"

subsection \<open>The fetch listener\<close>

datatype policy = PassThrough | NetworkFirst | StaleWhileRevalidate string | CacheFirst string

text \<open>The chain of tests of the listener, each ending in \<^verbatim>\<open>return\<close>.\<close>

definition classify :: "request \<Rightarrow> policy" where
  "classify request =
     (if req_method request \<noteq> ''GET'' then PassThrough
      else if hostname (req_url request) = ''api.github.com'' then NetworkFirst
      else if includes_str (pathname (req_url request)) ''/_STATE/'' then StaleWhileRevalidate API_CACHE
      else if hostname (req_url request) = ''cdnjs.cloudflare.com'' then CacheFirst CACHE_NAME
      else CacheFirst CACHE_NAME)"

text \<open>
  What the page gets back: the listener returned without \<^verbatim>\<open>respondWith\<close>, or the
  promise given to \<^verbatim>\<open>respondWith\<close> settled to a response, or it settled to something
  that is no response, which the browser turns into a network error.
\<close>

datatype served = NotIntercepted | Served response | NetworkError

fun respondWith :: "js_value \<Rightarrow> served" where
  "respondWith (Resp r) = Served r"
| "respondWith v = NetworkError"

definition fetch_listener ::
  "(request \<Rightarrow> response settled) \<Rightarrow> cache_storage \<Rightarrow> request \<Rightarrow> served \<times> cache_storage" where
  "fetch_listener net cs request =
     (case classify request of
        PassThrough \<Rightarrow> (NotIntercepted, cs)
      | NetworkFirst \<Rightarrow>
          (respondWith (case net request of Fulfilled r \<Rightarrow> Resp r | Rejected e \<Rightarrow> Resp offline_json), cs)
      | StaleWhileRevalidate n \<Rightarrow>
          (case staleWhileRevalidate net cs request n of (v, cs') \<Rightarrow> (respondWith v, cs'))
      | CacheFirst n \<Rightarrow>
          (case cacheFirst net cs request n of (v, cs') \<Rightarrow> (respondWith v, cs')))"

section \<open>The dashboard: Gateway and Vault\<close>

subsection \<open>Strings, storage and the platform\<close>



text \<open>
  A string that may be \<^verbatim>\<open>null\<close> or \<^verbatim>\<open>undefined\<close> is truthy when it is there and
  not empty.
\<close>

fun js_truthy :: "string option \<Rightarrow> bool" where
  "js_truthy None = False"
| "js_truthy (Some s) = (s \<noteq> [])"



record endpoint =
  ep_id :: string
  ep_label :: string
  ep_url :: string
  ep_icon :: string
  ep_group :: string



type_synonym storage = "string \<rightharpoonup> string"


definition GW_KEY_CF_URL :: string where
  "GW_KEY_CF_URL = ''iacp_gw_cf_tunnel_url''"

definition GW_KEY_CF_GW :: string where
  "GW_KEY_CF_GW = ''iacp_gw_cf_gateway_url''"

definition CF_ENDPOINTS :: "endpoint list" where
  "CF_ENDPOINTS =
     [\<lparr> ep_id = ''vizual-x'', ep_label = ''vizual-x.com'', ep_url = ''https://vizual-x.com'',
        ep_icon = [CHR 0xE2, CHR 0x98, CHR 0x81, CHR 0xEF, CHR 0xB8, CHR 0x8F], ep_group = ''cf'' \<rparr>,
      \<lparr> ep_id = ''infinityxai'', ep_label = ''infinityxai.com'', ep_url = ''https://infinityxai.com'',
        ep_icon = [CHR 0xF0, CHR 0x9F, CHR 0xA4, CHR 0x96], ep_group = ''ai'' \<rparr>]"

definition AI_ENDPOINTS :: "endpoint list" where
  "AI_ENDPOINTS =
     [\<lparr> ep_id = ''ollama-local'', ep_label = ''Ollama (local)'', ep_url = ''http://localhost:11434'',
        ep_icon = [CHR 0xF0, CHR 0x9F, CHR 0xA6, CHR 0x99], ep_group = ''ai'' \<rparr>,
      \<lparr> ep_id = ''groq-api'', ep_label = ''Groq API'', ep_url = ''https://api.groq.com'',
        ep_icon = [CHR 0xE2, CHR 0x9A, CHR 0xA1], ep_group = ''ai'' \<rparr>,
      \<lparr> ep_id = ''gemini-api'', ep_label = ''Gemini API'',
        ep_url = ''https://generativelanguage.googleapis.com'',
        ep_icon = [CHR 0xF0, CHR 0x9F, CHR 0x94, CHR 0xAE], ep_group = ''ai'' \<rparr>]"

subsection \<open>Probing one endpoint\<close>

text \<open>
  What the network does with one \<^verbatim>\<open>fetch\<close>: it answers after so many milliseconds,
  it fails after so many milliseconds, or it never settles. The timer of
  \<^verbatim>\<open>setTimeout(() => controller.abort(), 5000)\<close> aborts a fetch that has not settled
  when it fires, and an aborted fetch rejects with an \<^verbatim>\<open>AbortError\<close>.
\<close>

datatype net_reply = Reply nat response | NetFail nat js_error | Silent

definition fetch_with_signal :: "nat \<Rightarrow> net_reply \<Rightarrow> response settled" where
  "fetch_with_signal ms reply =
     (case reply of
        Reply t r \<Rightarrow> if t < ms then Fulfilled r else Rejected AbortError
      | NetFail t e \<Rightarrow> if t < ms then Rejected e else Rejected AbortError
      | Silent \<Rightarrow> Rejected AbortError)"

definition probeEndpoint :: "(string \<Rightarrow> net_reply) \<Rightarrow> string \<Rightarrow> string settled" where
  "probeEndpoint net u =
     (case fetch_with_signal 5000 (net u) of
        Fulfilled r \<Rightarrow> Fulfilled ''online''
      | Rejected e \<Rightarrow>
          if error_name e = ''AbortError'' then Fulfilled ''offline'' else Fulfilled ''offline'')"



subsection \<open>The page\<close>

text \<open>The parts of a card that \<^verbatim>\<open>endpointCardHtml\<close> fills in.\<close>

record card =
  card_icon :: string
  card_label :: string
  card_dot :: string
  card_status :: string
  card_href :: string

definition endpointCardHtml :: "endpoint \<Rightarrow> string \<Rightarrow> card" where
  "endpointCardHtml ep status =
     \<lparr> card_icon = ep_icon ep,
       card_label = ep_label ep,
       card_dot = (if status = ''online'' then ''online''
                   else if status = ''offline'' then ''offline'' else ''warning''),
       card_status = (if status = ''online'' then ''Online''
                      else if status = ''offline'' then ''Offline''
                      else ''Checking'' @ [CHR 0xE2, CHR 0x80, CHR 0xA6]),
       card_href = ep_url ep \<rparr>"

datatype vault_html = Cards "card list" | RunProbeNotice

record vault_item =
  item_icon :: string
  item_title :: string
  item_status :: string
  item_badge :: string

text \<open>
  The document and the storage. An element that the document does not have is \<open>None\<close>;
  otherwise the field holds what was last rendered into it. \<open>probed\<close> lists the URLs
  that probes have fetched, oldest first.
\<close>

record page =
  localStorage :: storage
  gateway_cf_grid :: "card list option"
  gateway_ai_grid :: "card list option"
  gateway_nav_dot :: "string option"
  vault_grid :: "vault_item list option"
  vault_endpoint_grid :: "vault_html option"
  toast_container :: "(string \<times> string) list option"
  gateway_new_label :: "string option"
  gateway_new_url :: "string option"
  settings_cf_tunnel_url :: "string option"
  settings_cf_gateway_url :: "string option"
  probed :: "string list"


subsection \<open>Merging the endpoints\<close>

text \<open>
  The built-in tunnel endpoints, each with the URL saved for it when there is one:
  \<^verbatim>\<open>if (ep.id === 'vizual-x' && savedCfUrl) return { ...ep, url: savedCfUrl }\<close>.
\<close>

definition cfEndpoints :: "storage \<Rightarrow> endpoint list" where
  "cfEndpoints st =
     map (\<lambda>ep.
       if ep_id ep = ''vizual-x'' \<and> js_truthy (st GW_KEY_CF_URL)
         then ep\<lparr>ep_url := (case st GW_KEY_CF_URL of Some u \<Rightarrow> u | None \<Rightarrow> ep_url ep)\<rparr>
       else if ep_id ep = ''infinityxai'' \<and> js_truthy (st GW_KEY_CF_GW)
         then ep\<lparr>ep_url := (case st GW_KEY_CF_GW of Some u \<Rightarrow> u | None \<Rightarrow> ep_url ep)\<rparr>
       else ep) CF_ENDPOINTS"


definition allAi :: "endpoint list \<Rightarrow> endpoint list" where
  "allAi custom = AI_ENDPOINTS @ filter (\<lambda>c. ep_group c \<noteq> ''cf'') custom"

definition cfCustom :: "endpoint list \<Rightarrow> endpoint list" where
  "cfCustom custom = filter (\<lambda>c. ep_group c = ''cf'') custom"

definition allEndpoints :: "storage \<Rightarrow> endpoint list \<Rightarrow> endpoint list" where
  "allEndpoints st custom = cfEndpoints st @ cfCustom custom @ allAi custom"




subsection \<open>loadGateway\<close>

text \<open>The page while the probes are in flight: every card says that it is checking.\<close>

definition loadGateway_skeleton :: "endpoint list \<Rightarrow> page \<Rightarrow> page" where
  "loadGateway_skeleton custom pg =
     pg\<lparr>gateway_cf_grid :=
           Some (map (\<lambda>ep. endpointCardHtml ep ''checking'')
                   (cfEndpoints (localStorage pg) @ cfCustom custom)),
        gateway_ai_grid := Some (map (\<lambda>ep. endpointCardHtml ep ''checking'') (allAi custom)),
        probed := probed pg @ map ep_url (allEndpoints (localStorage pg) custom)\<rparr>"



subsection \<open>loadVault\<close>



subsection \<open>Adding a custom endpoint, saving the tunnel configuration\<close>







section \<open>Concrete inputs\<close>

text \<open>
  Requests, workers, pages and platforms on which the theorems below are instantiated.
  The platform \<open>sample_platform\<close> is a small stand-in for the browser: its parser
  knows the empty array only, its printer lists the ids, and its URL parser accepts
  what starts with \<^verbatim>\<open>https://\<close>.
\<close>

definition snapshot_request :: request where
  "snapshot_request =
     \<lparr> req_method = ''GET'',
       req_url = \<lparr> url_scheme = ''https'', hostname = ''infinity-x-one-systems.github.io'',
                   pathname = ''/infinity-admin-control-plane/_STATE/org-index.json'',
                   url_search = [] \<rparr> \<rparr>"

definition api_request :: request where
  "api_request =
     \<lparr> req_method = ''GET'',
       req_url = \<lparr> url_scheme = ''https'', hostname = ''api.github.com'',
                   pathname = ''/rate_limit'', url_search = [] \<rparr> \<rparr>"

definition stale_worker :: worker where
  "stale_worker =
     \<lparr> caches = [(''iacp-v0'', [(snapshot_request, offline_503)]),
                 (API_CACHE, [(snapshot_request, empty_json)]),
                 (CACHE_NAME, [(api_request, offline_json)])],
       clients_claimed = False \<rparr>"

definition net_fails :: "request \<Rightarrow> response settled" where
  "net_fails r = Rejected TypeError"

definition opaque_response :: response where
  "opaque_response = \<lparr> resp_status = 0, resp_headers = [], resp_body = [] \<rparr>"


definition page0 :: page where
  "page0 =
     \<lparr> localStorage = Map.empty,
       gateway_cf_grid = Some [],
       gateway_ai_grid = Some [],
       gateway_nav_dot = Some ''status-dot'',
       vault_grid = Some [],
       vault_endpoint_grid = Some RunProbeNotice,
       toast_container = Some [],
       gateway_new_label = Some ''X'',
       gateway_new_url = Some ''https://x.com'',
       settings_cf_tunnel_url = Some [],
       settings_cf_gateway_url = Some [],
       probed = [] \<rparr>"




definition override_storage :: storage where
  "override_storage = [GW_KEY_CF_URL \<mapsto> ''https://custom.example'']"





section \<open>The service worker: activation and routing\<close>

lemma fold_caches_delete:
  "fold (\<lambda>k cs. caches_delete cs k) ks cs = filter (\<lambda>p. fst p \<notin> set ks) cs"
proof (induction ks arbitrary: cs)
  case Nil
  show ?case by simp
next
  case (Cons k ks)
  have "caches_delete cs k = filter (\<lambda>p. fst p \<noteq> k) cs"
    by (auto simp: caches_delete_def AList.delete_eq intro: filter_cong)
  then show ?case
    by (simp add: Cons.IH conj_commute)
qed

lemma activate_caches:
  "caches (activate w) = filter (\<lambda>p. fst p = CACHE_NAME \<or> fst p = API_CACHE) (caches w)"
  unfolding activate_def
  by (simp add: fold_caches_delete caches_keys_def) (rule filter_cong, auto)

lemma map_of_filter_fst:
  "map_of (filter (\<lambda>p. P (fst p)) xs) k = (if P k then map_of xs k else None)"
  by (induction xs) auto

lemma cache_of_caches_open: "cache_of (caches_open cs n) n = cache_of cs n"
  by (auto simp: cache_of_def caches_open_def map_add_def split: option.splits)

text \<open>
  Claim C9. Activation deletes every cache whose name is neither \<open>CACHE_NAME\<close> nor
  \<open>API_CACHE\<close>: the storage that is left is the old one restricted to those two
  names, so an entry of another generation can no longer be matched, and the two
  current caches keep all their entries. The worker then claims the open clients.
\<close>

theorem activate_keeps_current_generations_only:
  "caches (activate w) = filter (\<lambda>p. fst p = CACHE_NAME \<or> fst p = API_CACHE) (caches w)
   \<and> map_of (caches (activate w)) k =
       (if k = CACHE_NAME \<or> k = API_CACHE then map_of (caches w) k else None)
   \<and> (k \<noteq> CACHE_NAME \<and> k \<noteq> API_CACHE \<longrightarrow>
        k \<notin> set (caches_keys (caches (activate w)))
        \<and> cache_match (cache_of (caches (activate w)) k) r = None)
   \<and> (k = CACHE_NAME \<or> k = API_CACHE \<longrightarrow>
        cache_of (caches (activate w)) k = cache_of (caches w) k)
   \<and> clients_claimed (activate w)"
proof -
  have m: "map_of (caches (activate w)) k =
       (if k = CACHE_NAME \<or> k = API_CACHE then map_of (caches w) k else None)"
    unfolding activate_caches by (rule map_of_filter_fst)
  have c: "clients_claimed (activate w)" by (simp add: activate_def)
  have keys: "k \<noteq> CACHE_NAME \<and> k \<noteq> API_CACHE \<longrightarrow> k \<notin> set (caches_keys (caches (activate w)))"
    unfolding activate_caches caches_keys_def by auto
  show ?thesis using m c keys activate_caches[of w]
    by (simp add: cache_of_def cache_match_def)
qed

theorem activate_witness:
  "''iacp-v0'' \<noteq> CACHE_NAME \<and> ''iacp-v0'' \<noteq> API_CACHE
   \<and> cache_match (cache_of (caches stale_worker) ''iacp-v0'') snapshot_request = Some offline_503
   \<and> cache_match (cache_of (caches (activate stale_worker)) ''iacp-v0'') snapshot_request = None
   \<and> ''iacp-v0'' \<notin> set (caches_keys (caches (activate stale_worker)))
   \<and> cache_of (caches (activate stale_worker)) API_CACHE = [(snapshot_request, empty_json)]
   \<and> cache_of (caches (activate stale_worker)) CACHE_NAME = [(api_request, offline_json)]"
  using activate_keeps_current_generations_only[of stale_worker "''iacp-v0''" snapshot_request]
    activate_keeps_current_generations_only[of stale_worker API_CACHE snapshot_request]
    activate_keeps_current_generations_only[of stale_worker CACHE_NAME snapshot_request]
  by (simp add: stale_worker_def CACHE_NAME_def API_CACHE_def cache_of_def cache_match_def
        caches_keys_def)

text \<open>
  Claim C7. The listener classifies a request by the first test that applies: the
  method, then the host of the live API, then the path marker \<^verbatim>\<open>/_STATE/\<close>, then
  the rest. A GET request whose path holds the marker and whose host is not
  \<^verbatim>\<open>api.github.com\<close> is answered by \<open>staleWhileRevalidate\<close> on the API cache, never
  network-first and never cache-first.
\<close>

theorem classify_first_match_wins:
  "(classify request = PassThrough \<longleftrightarrow> req_method request \<noteq> ''GET'')
   \<and> (classify request = NetworkFirst \<longleftrightarrow>
        req_method request = ''GET'' \<and> hostname (req_url request) = ''api.github.com'')
   \<and> (classify request = StaleWhileRevalidate n \<longleftrightarrow>
        req_method request = ''GET'' \<and> hostname (req_url request) \<noteq> ''api.github.com''
        \<and> includes_str (pathname (req_url request)) ''/_STATE/'' \<and> n = API_CACHE)
   \<and> (classify request = CacheFirst n \<longleftrightarrow>
        req_method request = ''GET'' \<and> hostname (req_url request) \<noteq> ''api.github.com''
        \<and> \<not> includes_str (pathname (req_url request)) ''/_STATE/'' \<and> n = CACHE_NAME)
   \<and> (req_method request = ''GET'' \<and> hostname (req_url request) \<noteq> ''api.github.com''
        \<and> includes_str (pathname (req_url request)) ''/_STATE/'' \<longrightarrow>
        classify request = StaleWhileRevalidate API_CACHE
        \<and> classify request \<noteq> NetworkFirst
        \<and> (\<forall>c. classify request \<noteq> CacheFirst c)
        \<and> fetch_listener net cs request =
            (respondWith (fst (staleWhileRevalidate net cs request API_CACHE)),
             snd (staleWhileRevalidate net cs request API_CACHE)))"
  by (auto simp: classify_def fetch_listener_def split: prod.splits)

theorem classify_witness:
  "req_method snapshot_request = ''GET''
   \<and> hostname (req_url snapshot_request) \<noteq> ''api.github.com''
   \<and> includes_str (pathname (req_url snapshot_request)) ''/_STATE/''
   \<and> classify snapshot_request = StaleWhileRevalidate API_CACHE
   \<and> fetch_listener net_fails (caches stale_worker) snapshot_request =
       (respondWith (fst (staleWhileRevalidate net_fails (caches stale_worker) snapshot_request API_CACHE)),
        snd (staleWhileRevalidate net_fails (caches stale_worker) snapshot_request API_CACHE))"
proof -
  have h: "req_method snapshot_request = ''GET''
      \<and> hostname (req_url snapshot_request) \<noteq> ''api.github.com''
      \<and> includes_str (pathname (req_url snapshot_request)) ''/_STATE/''"
    by (simp add: snapshot_request_def)
  then show ?thesis
    using classify_first_match_wins[of snapshot_request API_CACHE net_fails "caches stale_worker"]
    by blast
qed

text \<open>
  Claim C8. A GET request to \<^verbatim>\<open>api.github.com\<close> is answered from the network and
  leaves the cache storage as it was; when the fetch fails the answer is the JSON
  text \<^verbatim>\<open>{"error":"offline"}\<close>.
\<close>

theorem github_api_is_network_first_and_never_cached:
  assumes "req_method request = ''GET''" and "hostname (req_url request) = ''api.github.com''"
  shows "fetch_listener net cs request =
           (Served (case net request of Fulfilled r \<Rightarrow> r | Rejected e \<Rightarrow> offline_json), cs)
         \<and> resp_body offline_json = ''{'' @ quoted ''error'' @ '':'' @ quoted ''offline'' @ ''}''
         \<and> resp_headers offline_json = [(''Content-Type'', ''application/json'')]"
  using assms
  by (simp add: fetch_listener_def classify_def offline_json_def new_Response_def json_headers_def
           split: settled.splits)

theorem github_api_witness:
  "req_method api_request = ''GET'' \<and> hostname (req_url api_request) = ''api.github.com''
   \<and> fetch_listener net_fails (caches stale_worker) api_request = (Served offline_json, caches stale_worker)
   \<and> fetch_listener (\<lambda>r. Fulfilled empty_json) (caches stale_worker) api_request
        = (Served empty_json, caches stale_worker)"
proof -
  have h1: "req_method api_request = ''GET''" by (simp add: api_request_def)
  have h2: "hostname (req_url api_request) = ''api.github.com''" by (simp add: api_request_def)
  show ?thesis
    using h1 h2
      github_api_is_network_first_and_never_cached[OF h1 h2, of net_fails "caches stale_worker"]
      github_api_is_network_first_and_never_cached[OF h1 h2, of "\<lambda>r. Fulfilled empty_json" "caches stale_worker"]
    by (simp add: net_fails_def)
qed

section \<open>The service worker: stale-while-revalidate\<close>

lemma staleWhileRevalidate_hit:
  "cache_match (cache_of cs cacheName) request = Some cached \<Longrightarrow>
   fst (staleWhileRevalidate net cs request cacheName) = Resp cached"
  by (simp add: staleWhileRevalidate_def Let_def cache_of_caches_open js_or_def)

lemma staleWhileRevalidate_miss_online:
  "cache_match (cache_of cs cacheName) request = None \<Longrightarrow> net request = Fulfilled r \<Longrightarrow>
   fst (staleWhileRevalidate net cs request cacheName) = Resp r"
  by (simp add: staleWhileRevalidate_def Let_def cache_of_caches_open js_or_def)

text \<open>
  Claim C3. With a cached copy the function returns it, and without one it returns
  what the network delivers (the two lemmas above). With no cached copy and a failed
  fetch the claim promises an empty JSON object; the code returns \<^verbatim>\<open>null\<close>
  instead, because \<^verbatim>\<open>fetchPromise\<close> is a promise and so always truthy in
  \<^verbatim>\<open>cached || fetchPromise || new Response('{}', ...)\<close>: the page gets a network
  error.
\<close>

theorem staleWhileRevalidate_miss_offline_is_null:
  assumes "cache_match (cache_of cs cacheName) request = None" and "net request = Rejected e"
  shows "staleWhileRevalidate net cs request cacheName = (Null, caches_open cs cacheName)
         \<and> fst (staleWhileRevalidate net cs request cacheName) \<noteq> Resp empty_json
         \<and> respondWith (fst (staleWhileRevalidate net cs request cacheName)) = NetworkError"
  using assms
  by (simp add: staleWhileRevalidate_def Let_def cache_of_caches_open js_or_def)

theorem staleWhileRevalidate_miss_offline_witness:
  "cache_match (cache_of [] API_CACHE) snapshot_request = None
   \<and> net_fails snapshot_request = Rejected TypeError
   \<and> staleWhileRevalidate net_fails [] snapshot_request API_CACHE = (Null, [(API_CACHE, [])])
   \<and> fetch_listener net_fails [] snapshot_request = (NetworkError, [(API_CACHE, [])])"
proof -
  have h1: "cache_match (cache_of [] API_CACHE) snapshot_request = None"
    by (simp add: cache_of_def cache_match_def)
  have h2: "net_fails snapshot_request = Rejected TypeError"
    by (simp add: net_fails_def)
  have c: "classify snapshot_request = StaleWhileRevalidate API_CACHE"
    by (simp add: classify_def snapshot_request_def)
  show ?thesis
    using h1 h2 c
      staleWhileRevalidate_miss_offline_is_null[where cs="[]" and cacheName=API_CACHE
        and request=snapshot_request and net=net_fails and e=TypeError]
    by (simp add: fetch_listener_def caches_open_def)
qed

section \<open>The dashboard: probes\<close>

text \<open>
  Claim C2. A probe is fulfilled with \<^verbatim>\<open>online\<close> exactly when the network answers
  before the 5000 ms of the abort timer, whatever the answer is; a failure, an answer
  that comes later and no answer at all give \<^verbatim>\<open>offline\<close> alike. The probe never
  rejects.
\<close>

theorem probeEndpoint_online_iff_reply_before_timeout:
  "probeEndpoint net u =
     Fulfilled (if (\<exists>t r. net u = Reply t r \<and> t < 5000) then ''online'' else ''offline'')
   \<and> (\<forall>e. probeEndpoint net u \<noteq> Rejected e)"
  by (cases "net u") (simp_all add: probeEndpoint_def fetch_with_signal_def)

theorem probeEndpoint_witness:
  "probeEndpoint (\<lambda>u. Reply 4999 opaque_response) ''https://vizual-x.com'' = Fulfilled ''online''
   \<and> probeEndpoint (\<lambda>u. Reply 5000 opaque_response) ''https://vizual-x.com'' = Fulfilled ''offline''
   \<and> probeEndpoint (\<lambda>u. NetFail 3 TypeError) ''https://vizual-x.com'' = Fulfilled ''offline''
   \<and> probeEndpoint (\<lambda>u. Silent) ''https://vizual-x.com'' = Fulfilled ''offline''"
  using probeEndpoint_online_iff_reply_before_timeout[of "\<lambda>u. Reply 4999 opaque_response" "''https://vizual-x.com''"]
    probeEndpoint_online_iff_reply_before_timeout[of "\<lambda>u. Reply 5000 opaque_response" "''https://vizual-x.com''"]
    probeEndpoint_online_iff_reply_before_timeout[of "\<lambda>u. NetFail 3 TypeError" "''https://vizual-x.com''"]
    probeEndpoint_online_iff_reply_before_timeout[of "\<lambda>u. Silent" "''https://vizual-x.com''"]
  by simp

section \<open>The dashboard: saving the tunnel configuration\<close>



section \<open>The dashboard: a refresh of the Gateway section\<close>

subsection \<open>A batch of probes always settles\<close>




subsection \<open>The status map holds results of the batch only\<close>





subsection \<open>What each step leaves in the page\<close>














subsection \<open>The concrete inputs, evaluated\<close>









section \<open>The dashboard: merged endpoints\<close>

text \<open>
  Claim C5. The URL of a built-in tunnel endpoint is the override saved for it when
  one is saved, and the built-in default otherwise: \<^verbatim>\<open>vizual-x\<close> reads the tunnel
  key and \<^verbatim>\<open>infinityxai\<close> the gateway key; a stored empty string counts as no
  override. Nothing else of a built-in endpoint changes, the AI endpoints have no
  override, and the merged URL is the one that is probed and the one the card links
  to.
\<close>

theorem cfEndpoints_use_saved_override:
  "map (\<lambda>ep. (ep_id ep, ep_url ep)) (cfEndpoints st) =
     [(''vizual-x'', case st GW_KEY_CF_URL of
                       Some u \<Rightarrow> if u \<noteq> [] then u else ''https://vizual-x.com''
                     | None \<Rightarrow> ''https://vizual-x.com''),
      (''infinityxai'', case st GW_KEY_CF_GW of
                          Some u \<Rightarrow> if u \<noteq> [] then u else ''https://infinityxai.com''
                        | None \<Rightarrow> ''https://infinityxai.com'')]
   \<and> (st GW_KEY_CF_URL = Some u \<and> u \<noteq> [] \<longrightarrow>
        (\<forall>ep \<in> set (cfEndpoints st). ep_id ep = ''vizual-x'' \<longrightarrow> ep_url ep = u))
   \<and> (st GW_KEY_CF_GW = Some u \<and> u \<noteq> [] \<longrightarrow>
        (\<forall>ep \<in> set (cfEndpoints st). ep_id ep = ''infinityxai'' \<longrightarrow> ep_url ep = u))
   \<and> (st GW_KEY_CF_URL = None \<longrightarrow>
        (\<forall>ep \<in> set (cfEndpoints st). ep_id ep = ''vizual-x'' \<longrightarrow> ep_url ep = ''https://vizual-x.com''))
   \<and> (st GW_KEY_CF_GW = None \<longrightarrow>
        (\<forall>ep \<in> set (cfEndpoints st). ep_id ep = ''infinityxai'' \<longrightarrow> ep_url ep = ''https://infinityxai.com''))
   \<and> map (\<lambda>ep. ep\<lparr>ep_url := []\<rparr>) (cfEndpoints st) = map (\<lambda>ep. ep\<lparr>ep_url := []\<rparr>) CF_ENDPOINTS
   \<and> allEndpoints st custom = cfEndpoints st @ cfCustom custom @ AI_ENDPOINTS @ filter (\<lambda>c. ep_group c \<noteq> ''cf'') custom
   \<and> probed (loadGateway_skeleton custom pg) = probed pg @ map ep_url (allEndpoints (localStorage pg) custom)
   \<and> card_href (endpointCardHtml ep status) = ep_url ep"
  by (cases "st GW_KEY_CF_URL"; cases "st GW_KEY_CF_GW")
     (simp_all add: cfEndpoints_def CF_ENDPOINTS_def allEndpoints_def allAi_def
        loadGateway_skeleton_def endpointCardHtml_def)

theorem cfEndpoints_override_witness:
  "override_storage GW_KEY_CF_URL = Some ''https://custom.example''
   \<and> ''https://custom.example'' \<noteq> []
   \<and> override_storage GW_KEY_CF_GW = None
   \<and> map (\<lambda>ep. (ep_id ep, ep_url ep)) (cfEndpoints override_storage) =
        [(''vizual-x'', ''https://custom.example''), (''infinityxai'', ''https://infinityxai.com'')]
   \<and> map (\<lambda>ep. (ep_id ep, ep_url ep)) (cfEndpoints Map.empty) =
        [(''vizual-x'', ''https://vizual-x.com''), (''infinityxai'', ''https://infinityxai.com'')]"
proof -
  have h: "override_storage GW_KEY_CF_URL = Some ''https://custom.example''"
    "override_storage GW_KEY_CF_GW = None"
    by (simp_all add: override_storage_def GW_KEY_CF_URL_def GW_KEY_CF_GW_def)
  show ?thesis
    using cfEndpoints_use_saved_override[of override_storage "''https://custom.example''" "[]" page0]
      cfEndpoints_use_saved_override[of Map.empty "''https://custom.example''" "[]" page0]
    by (simp add: h)
qed

section \<open>The dashboard: rendered statuses\<close>



section \<open>The dashboard: one batch for two panels\<close>




section \<open>The dashboard: adding a custom endpoint\<close>








end
